theory Spec2Isabelle
  imports Main "HOL-Library.Word"
begin

unbundle bit_operations_syntax

section \<open>The object emitter of z80asm (z80aout.c)\<close>

text \<open>
  The object-file part of \<^verbatim>\<open>z80aout.c\<close> is embedded here: \<^verbatim>\<open>asmerr\<close>,
  \<^verbatim>\<open>obj_header\<close>, \<^verbatim>\<open>obj_end\<close>, \<^verbatim>\<open>obj_org\<close>, \<^verbatim>\<open>obj_writeb\<close>, \<^verbatim>\<open>obj_fill\<close>,
  \<^verbatim>\<open>obj_fill_value\<close>, \<^verbatim>\<open>fill_bin\<close>, \<^verbatim>\<open>eof_hex\<close>, \<^verbatim>\<open>flush_hex\<close>, \<^verbatim>\<open>hex_record\<close>,
  \<^verbatim>\<open>btoh\<close> and \<^verbatim>\<open>chksum\<close>. The C globals the functions read and write are the
  fields of one record that every function takes and returns. \<^verbatim>\<open>BYTE\<close> is an
  unsigned 8-bit and \<^verbatim>\<open>WORD\<close> an unsigned 16-bit integer; \<^verbatim>\<open>int\<close> is wider than
  16 bits, so that an arithmetic expression over \<^verbatim>\<open>WORD\<close> operands is computed
  without wrap-around and wraps only when it is stored back into a \<^verbatim>\<open>WORD\<close>.
\<close>

type_synonym BYTE = "8 word"
type_synonym WORD = "16 word"

datatype obj_format = OBJ_BIN | OBJ_MOS | OBJ_HEX

text \<open>
  The globals. \<^verbatim>\<open>obj_fmt\<close>, \<^verbatim>\<open>load_flag\<close>, \<^verbatim>\<open>load_addr\<close>, \<^verbatim>\<open>nofill_flag\<close>,
  \<^verbatim>\<open>hexlen\<close>, \<^verbatim>\<open>start_addr\<close>, \<^verbatim>\<open>pass\<close>, \<^verbatim>\<open>errnum\<close> and \<^verbatim>\<open>errors\<close> are declared in
  z80aglb.h and set by the rest of the assembler; the five statics and the record
  buffer are owned by this module. The file \<^verbatim>\<open>objfp\<close> is the list of the bytes
  written so far (a character is its ASCII code); \<^verbatim>\<open>errfp\<close> is the list of the
  messages of \<^verbatim>\<open>errmsg\<close> printed so far (the file and line header that precedes
  each message is left out). \<^verbatim>\<open>hex_buf\<close> is an array of \<^verbatim>\<open>MAXHEX\<close> bytes: a list
  whose length is \<^verbatim>\<open>MAXHEX\<close>.
\<close>

record emit_state =
  obj_fmt :: obj_format
  load_flag :: bool
  load_addr :: WORD
  nofill_flag :: bool
  hexlen :: int
  start_addr :: WORD
  pass :: int
  errnum :: nat
  errors :: int
  errfp :: "string list"
  nseq_flag :: bool
  curr_addr :: WORD
  bin_addr :: WORD
  hex_addr :: WORD
  hex_cnt :: WORD
  hex_buf :: "BYTE list"
  objfp :: "BYTE list"

definition errmsg :: "string list" where
  "errmsg =
    [''no error'', ''invalid opcode'', ''invalid operand'', ''missing operand'',
     ''multiple defined symbol'', ''undefined symbol'', ''value out of range'',
     ''missing right parenthesis'', ''missing string delimiter'',
     ''non-sequential object code'', ''missing IF'', ''IF nested too deep'',
     ''missing ENDIF'', ''INCLUDE nested too deep'', ''.PHASE can not be nested'',
     ''ORG in .PHASE block'', ''missing .PHASE'', ''division by zero'',
     ''invalid expression'', ''object code before ORG'', ''illegal label'',
     ''missing .DEPHASE'', ''not in macro definition'', ''missing ENDM'',
     ''not in macro expansion'', ''macro expansion nested too deep'',
     ''too many local labels'']"

text \<open>
  The error numbers are macros of z80a.h; their values are the indices the table
  \<^verbatim>\<open>errmsg\<close> gives for "non-sequential object code" and "object code before ORG".
\<close>

definition E_NOERR :: nat where "E_NOERR = 0"
definition E_NSQWRT :: nat where "E_NSQWRT = 9"
definition E_BFRORG :: nat where "E_BFRORG = 19"

definition HEX_DATA :: BYTE where "HEX_DATA = 0"
definition HEX_EOF :: BYTE where "HEX_EOF = 1"

text \<open>The zero-initialised statics, with the configuration the assembler has set.\<close>

definition init_state ::
  "obj_format \<Rightarrow> bool \<Rightarrow> WORD \<Rightarrow> bool \<Rightarrow> int \<Rightarrow> WORD \<Rightarrow> int \<Rightarrow> nat \<Rightarrow> emit_state" where
  "init_state fmt lflag laddr nofill hlen saddr pss MAXHEX =
    \<lparr>obj_fmt = fmt, load_flag = lflag, load_addr = laddr, nofill_flag = nofill,
     hexlen = hlen, start_addr = saddr, pass = pss, errnum = E_NOERR, errors = 0,
     errfp = [], nseq_flag = False, curr_addr = 0, bin_addr = 0, hex_addr = 0,
     hex_cnt = 0, hex_buf = replicate MAXHEX 0, objfp = []\<rparr>"

subsection \<open>Error reporting\<close>

definition asmerr :: "nat \<Rightarrow> emit_state \<Rightarrow> emit_state" where
  "asmerr i s =
    (if pass s = 1 then s\<lparr>errfp := errfp s @ [errmsg ! i]\<rparr> else s\<lparr>errnum := i\<rparr>)
      \<lparr>errors := errors s + 1\<rparr>"

subsection \<open>Binary output\<close>

definition putc :: "BYTE \<Rightarrow> emit_state \<Rightarrow> emit_state" where
  "putc c s = s\<lparr>objfp := objfp s @ [c]\<rparr>"

function fill_bin :: "emit_state \<Rightarrow> emit_state" where
  "fill_bin s =
    (if bin_addr s < curr_addr s
     then fill_bin ((putc 0xff s)\<lparr>bin_addr := bin_addr s + 1\<rparr>)
     else s)"
  by pat_completeness auto
termination
proof (relation "measure (\<lambda>s. unat (curr_addr s) - unat (bin_addr s))")
  fix s :: emit_state
  assume lt: "bin_addr s < curr_addr s"
  then have "unat (bin_addr s + 1) = unat (bin_addr s) + 1"
    by unat_arith
  moreover from lt have "unat (bin_addr s) < unat (curr_addr s)"
    by (simp add: word_less_nat_alt)
  ultimately show "((putc 0xff s)\<lparr>bin_addr := bin_addr s + 1\<rparr>, s)
      \<in> measure (\<lambda>s. unat (curr_addr s) - unat (bin_addr s))"
    by (simp add: putc_def)
qed simp

declare fill_bin.simps [simp del]

text \<open>\<^verbatim>\<open>fwrite(ops, 1, op_cnt, objfp)\<close>: the first \<^verbatim>\<open>op_cnt\<close> bytes of the array \<^verbatim>\<open>ops\<close>.\<close>

definition fwrite :: "BYTE list \<Rightarrow> nat \<Rightarrow> emit_state \<Rightarrow> emit_state" where
  "fwrite ops op_cnt s = s\<lparr>objfp := objfp s @ map (\<lambda>i. ops ! i) [0..<op_cnt]\<rparr>"

text \<open>\<^verbatim>\<open>while (n-- > 0) putc(value, objfp)\<close>; \<^verbatim>\<open>putc\<close> writes its argument as a byte.\<close>

fun putc_loop :: "nat \<Rightarrow> WORD \<Rightarrow> emit_state \<Rightarrow> emit_state" where
  "putc_loop 0 v s = s"
| "putc_loop (Suc n) v s = putc_loop n v (putc (ucast v) s)"

definition obj_header :: "emit_state \<Rightarrow> emit_state" where
  "obj_header s =
    (case obj_fmt s of
       OBJ_BIN \<Rightarrow> s
     | OBJ_MOS \<Rightarrow> putc (ucast (drop_bit 8 (load_addr s)))
                   (putc (ucast (load_addr s AND 0xff)) (putc 0xff s))
     | OBJ_HEX \<Rightarrow> s)"

subsection \<open>Hex records\<close>

text \<open>\<^verbatim>\<open>btoh\<close> stores two characters at \<^verbatim>\<open>*p\<close>; here it returns them.\<close>

definition btoh :: "BYTE \<Rightarrow> BYTE list" where
  "btoh b =
    (let c = drop_bit 4 b; d = b AND 0xf
     in [c + (if c < 10 then 0x30 else 0x37), d + (if d < 10 then 0x30 else 0x37)])"

definition chksum :: "BYTE \<Rightarrow> emit_state \<Rightarrow> BYTE" where
  "chksum rec_type s =
    - fold (\<lambda>n sum. sum + hex_buf s ! n) [0..<unat (hex_cnt s)]
        (ucast (hex_cnt s) + ucast (drop_bit 8 (hex_addr s))
          + ucast (hex_addr s AND 0xff) + rec_type)"

text \<open>
  The bytes \<^verbatim>\<open>hex_record\<close> hands to \<^verbatim>\<open>btoh\<close>, in the order of the calls, and the
  text it builds in \<^verbatim>\<open>hex_out\<close> from them: a colon, two characters for each byte
  and a newline (the terminating NUL is not written by \<^verbatim>\<open>fputs\<close>).
\<close>

definition record_fields :: "BYTE \<Rightarrow> emit_state \<Rightarrow> BYTE list" where
  "record_fields rec_type s =
    [ucast (hex_cnt s), ucast (drop_bit 8 (hex_addr s)), ucast (hex_addr s AND 0xff),
     rec_type]
    @ map (\<lambda>n. hex_buf s ! n) [0..<unat (hex_cnt s)]
    @ [chksum rec_type s]"

definition hex_out :: "BYTE \<Rightarrow> emit_state \<Rightarrow> BYTE list" where
  "hex_out rec_type s = 0x3a # concat (map btoh (record_fields rec_type s)) @ [0x0a]"

definition hex_record :: "BYTE \<Rightarrow> emit_state \<Rightarrow> emit_state" where
  "hex_record rec_type s = s\<lparr>objfp := objfp s @ hex_out rec_type s\<rparr>"

definition flush_hex :: "emit_state \<Rightarrow> emit_state" where
  "flush_hex s =
    (let s1 = (if hex_cnt s \<noteq> 0 then (hex_record HEX_DATA s)\<lparr>hex_cnt := 0\<rparr> else s)
     in s1\<lparr>hex_addr := curr_addr s1\<rparr>)"

definition eof_hex :: "WORD \<Rightarrow> emit_state \<Rightarrow> emit_state" where
  "eof_hex addr s = hex_record HEX_EOF (s\<lparr>hex_cnt := 0, hex_addr := addr\<rparr>)"

text \<open>
  The body of the two loops that append to the record buffer, in \<^verbatim>\<open>obj_writeb\<close>
  and in \<^verbatim>\<open>obj_fill_value\<close>: flush a full buffer, store the byte, count it.
  \<^verbatim>\<open>hex_cnt >= hexlen\<close> compares as \<^verbatim>\<open>int\<close>. A store beyond the array is
  undefined in C; the list update does nothing there, and \<open>hex_ok\<close> below is the
  condition under which no store is beyond the array.
\<close>

definition hex_put :: "BYTE \<Rightarrow> emit_state \<Rightarrow> emit_state" where
  "hex_put b s =
    (let s1 = (if hexlen s \<le> uint (hex_cnt s) then flush_hex s else s)
     in s1\<lparr>hex_buf := (hex_buf s1)[unat (hex_cnt s1) := b],
           hex_cnt := hex_cnt s1 + 1,
           curr_addr := curr_addr s1 + 1\<rparr>)"

text \<open>\<^verbatim>\<open>for (i = 0; op_cnt > 0; op_cnt--) { ... ops[i++] ... }\<close>\<close>

fun hex_write_loop :: "BYTE list \<Rightarrow> nat \<Rightarrow> nat \<Rightarrow> emit_state \<Rightarrow> emit_state" where
  "hex_write_loop ops i 0 s = s"
| "hex_write_loop ops i (Suc op_cnt) s = hex_write_loop ops (Suc i) op_cnt (hex_put (ops ! i) s)"

text \<open>\<^verbatim>\<open>while (n-- > 0) { ... hex_buf[hex_cnt++] = value; ... }\<close>\<close>

fun hex_fill_loop :: "nat \<Rightarrow> WORD \<Rightarrow> emit_state \<Rightarrow> emit_state" where
  "hex_fill_loop 0 v s = s"
| "hex_fill_loop (Suc n) v s = hex_fill_loop n v (hex_put (ucast v) s)"

subsection \<open>The operations\<close>

text \<open>
  \<^verbatim>\<open>case OBJ_BIN:\<close> falls through to \<^verbatim>\<open>case OBJ_MOS:\<close> in every switch; the shared
  branch of \<^verbatim>\<open>obj_org\<close>, \<^verbatim>\<open>obj_writeb\<close> and \<^verbatim>\<open>obj_fill_value\<close> is \<open>org_bin\<close>,
  \<open>writeb_bin\<close> and \<open>fill_value_bin\<close>.
\<close>

definition obj_end :: "emit_state \<Rightarrow> emit_state" where
  "obj_end s =
    (case obj_fmt s of
       OBJ_BIN \<Rightarrow>
         (if \<not> nofill_flag s \<and> \<not> (load_flag s \<and> bin_addr s < load_addr s)
          then fill_bin s else s)
     | OBJ_MOS \<Rightarrow>
         (if \<not> nofill_flag s \<and> \<not> (load_flag s \<and> bin_addr s < load_addr s)
          then fill_bin s else s)
     | OBJ_HEX \<Rightarrow> (let s1 = flush_hex s in eof_hex (start_addr s1) s1))"

definition org_bin :: "WORD \<Rightarrow> emit_state \<Rightarrow> emit_state" where
  "org_bin addr s =
    (let s1 = s\<lparr>nseq_flag := addr < curr_addr s\<rparr>;
         s2 = (if load_flag s1 \<and> bin_addr s1 < load_addr s1
               then s1\<lparr>bin_addr := addr\<rparr> else s1)
     in s2\<lparr>curr_addr := addr\<rparr>)"

definition obj_org :: "WORD \<Rightarrow> emit_state \<Rightarrow> emit_state" where
  "obj_org addr s =
    (case obj_fmt s of
       OBJ_BIN \<Rightarrow> org_bin addr s
     | OBJ_MOS \<Rightarrow> org_bin addr s
     | OBJ_HEX \<Rightarrow> s\<lparr>curr_addr := addr\<rparr>)"

text \<open>
  \<^verbatim>\<open>obj_writeb(op_cnt)\<close> reads the global array \<^verbatim>\<open>ops\<close>, which is a parameter
  here; \<^verbatim>\<open>op_cnt\<close> is an \<^verbatim>\<open>int\<close> that the callers keep between 0 and the size
  of the array.
\<close>

definition writeb_bin :: "BYTE list \<Rightarrow> nat \<Rightarrow> emit_state \<Rightarrow> emit_state" where
  "writeb_bin ops op_cnt s =
    (if nseq_flag s then asmerr E_NSQWRT s
     else
       (let s1 = (if load_flag s \<and> bin_addr s < load_addr s then asmerr E_BFRORG s
                  else (let s2 = fwrite ops op_cnt (fill_bin s)
                        in s2\<lparr>bin_addr := bin_addr s2 + of_nat op_cnt\<rparr>))
        in s1\<lparr>curr_addr := curr_addr s1 + of_nat op_cnt\<rparr>))"

definition obj_writeb :: "BYTE list \<Rightarrow> nat \<Rightarrow> emit_state \<Rightarrow> emit_state" where
  "obj_writeb ops op_cnt s =
    (if op_cnt = 0 then s
     else case obj_fmt s of
       OBJ_BIN \<Rightarrow> writeb_bin ops op_cnt s
     | OBJ_MOS \<Rightarrow> writeb_bin ops op_cnt s
     | OBJ_HEX \<Rightarrow>
         hex_write_loop ops 0 op_cnt
           (if uint (hex_addr s) + uint (hex_cnt s) \<noteq> uint (curr_addr s)
            then flush_hex s else s))"

definition obj_fill :: "WORD \<Rightarrow> emit_state \<Rightarrow> emit_state" where
  "obj_fill count s =
    (if count = 0 then s
     else case obj_fmt s of
       OBJ_BIN \<Rightarrow> (if \<not> nseq_flag s then s\<lparr>curr_addr := curr_addr s + count\<rparr> else s)
     | OBJ_MOS \<Rightarrow> (if \<not> nseq_flag s then s\<lparr>curr_addr := curr_addr s + count\<rparr> else s)
     | OBJ_HEX \<Rightarrow> s\<lparr>curr_addr := curr_addr s + count\<rparr>)"

definition fill_value_bin :: "WORD \<Rightarrow> WORD \<Rightarrow> emit_state \<Rightarrow> emit_state" where
  "fill_value_bin count v s =
    (if nseq_flag s then asmerr E_NSQWRT s
     else
       (let s1 = (if load_flag s \<and> bin_addr s < load_addr s then asmerr E_BFRORG s
                  else (let s2 = putc_loop (unat count) v (fill_bin s)
                        in s2\<lparr>bin_addr := bin_addr s2 + count\<rparr>))
        in s1\<lparr>curr_addr := curr_addr s1 + count\<rparr>))"

definition obj_fill_value :: "WORD \<Rightarrow> WORD \<Rightarrow> emit_state \<Rightarrow> emit_state" where
  "obj_fill_value count v s =
    (if count = 0 then s
     else case obj_fmt s of
       OBJ_BIN \<Rightarrow> fill_value_bin count v s
     | OBJ_MOS \<Rightarrow> fill_value_bin count v s
     | OBJ_HEX \<Rightarrow>
         hex_fill_loop (unat count) v
           (if uint (hex_addr s) + uint (hex_cnt s) \<noteq> uint (curr_addr s)
            then flush_hex s else s))"

subsection \<open>Sequences of operations\<close>

text \<open>
  The calls the code generator makes, as data: \<^verbatim>\<open>obj_org\<close>, \<^verbatim>\<open>obj_writeb\<close> with
  the bytes of \<^verbatim>\<open>ops\<close> and their number, \<^verbatim>\<open>obj_fill\<close>, \<^verbatim>\<open>obj_fill_value\<close> and
  \<^verbatim>\<open>obj_end\<close>. \<open>run\<close> makes the calls of a list in order, \<open>trace\<close> lists the
  states a run goes through, and \<open>emit\<close> is a whole file: header, calls, end.
\<close>

datatype emit_op = Org WORD | Write "BYTE list" | Skip WORD | Fill WORD WORD | End

fun exec_op :: "emit_op \<Rightarrow> emit_state \<Rightarrow> emit_state" where
  "exec_op (Org addr) s = obj_org addr s"
| "exec_op (Write ops) s = obj_writeb ops (length ops) s"
| "exec_op (Skip count) s = obj_fill count s"
| "exec_op (Fill count v) s = obj_fill_value count v s"
| "exec_op End s = obj_end s"

fun run :: "emit_op list \<Rightarrow> emit_state \<Rightarrow> emit_state" where
  "run [] s = s"
| "run (x # xs) s = run xs (exec_op x s)"

fun trace :: "emit_op list \<Rightarrow> emit_state \<Rightarrow> emit_state list" where
  "trace [] s = [s]"
| "trace (x # xs) s = s # trace xs (exec_op x s)"

definition emit :: "emit_op list \<Rightarrow> emit_state \<Rightarrow> emit_state" where
  "emit xs s = obj_end (run xs (obj_header s))"

text \<open>The operations that emit or skip bytes at the current address.\<close>

fun is_emission :: "emit_op \<Rightarrow> bool" where
  "is_emission (Write ops) = True"
| "is_emission (Skip count) = True"
| "is_emission (Fill count v) = True"
| "is_emission _ = False"

text \<open>
  An operation moves forward when an origin is not below the logical address and
  when the bytes written or skipped end at or below address 0xFFFF.
\<close>

fun forward :: "emit_op \<Rightarrow> emit_state \<Rightarrow> bool" where
  "forward (Org addr) s = (curr_addr s \<le> addr)"
| "forward (Write ops) s = (unat (curr_addr s) + length ops < 65536)"
| "forward (Skip count) s = (unat (curr_addr s) + unat count < 65536)"
| "forward (Fill count v) s = (unat (curr_addr s) + unat count < 65536)"
| "forward End s = True"

fun forward_run :: "emit_op list \<Rightarrow> emit_state \<Rightarrow> bool" where
  "forward_run [] s = True"
| "forward_run (x # xs) s = (forward x s \<and> forward_run xs (exec_op x s))"

text \<open>
  What the caller supplies: the bytes of a sequence of emissions that starts at
  address \<open>a\<close>, each with the address it is meant for (addresses count modulo
  65536), and the address after the sequence, not reduced.
\<close>

definition addrs :: "nat \<Rightarrow> nat \<Rightarrow> nat list" where
  "addrs a n = map (\<lambda>i. (a + i) mod 65536) [0..<n]"

fun supplied :: "nat \<Rightarrow> emit_op list \<Rightarrow> (nat \<times> BYTE) list" where
  "supplied a [] = []"
| "supplied a (Write ops # xs) = zip (addrs a (length ops)) ops @ supplied (a + length ops) xs"
| "supplied a (Skip count # xs) = supplied (a + unat count) xs"
| "supplied a (Fill count v # xs) =
    zip (addrs a (unat count)) (replicate (unat count) (ucast v))
    @ supplied (a + unat count) xs"
| "supplied a (x # xs) = supplied a xs"

fun extent :: "nat \<Rightarrow> emit_op list \<Rightarrow> nat" where
  "extent a [] = a"
| "extent a (Write ops # xs) = extent (a + length ops) xs"
| "extent a (Skip count # xs) = extent (a + unat count) xs"
| "extent a (Fill count v # xs) = extent (a + unat count) xs"
| "extent a (x # xs) = extent a xs"

subsection \<open>Reading a hex file back\<close>

text \<open>
  The reader's side of the record format \<^verbatim>\<open>:CCAAAATTDD...DDSS\<close> followed by a
  newline, as section 6 of the specification gives it; none of this is code of
  z80aout.c. It is what the emitted text is compared with. \<open>hexval\<close> is the value
  of a hex digit character, \<open>unhex\<close> turns pairs of digits into bytes,
  \<open>read_fields\<close> gives the bytes of one line, and \<open>read_record\<close> checks the count
  and the checksum of a line and gives its type, address and payload.
  \<open>read_hex\<close> does so for every line of a file.
\<close>

definition hexval :: "BYTE \<Rightarrow> BYTE option" where
  "hexval c =
    (if 0x30 \<le> c \<and> c \<le> 0x39 then Some (c - 0x30)
     else if 0x41 \<le> c \<and> c \<le> 0x46 then Some (c - 0x37)
     else None)"

fun unhex :: "BYTE list \<Rightarrow> BYTE list option" where
  "unhex [] = Some []"
| "unhex [c] = None"
| "unhex (c # d # cs) =
    (case hexval c of
       None \<Rightarrow> None
     | Some h \<Rightarrow>
        (case hexval d of
           None \<Rightarrow> None
         | Some l \<Rightarrow> map_option ((#) (push_bit 4 h OR l)) (unhex cs)))"

fun read_fields :: "BYTE list \<Rightarrow> BYTE list option" where
  "read_fields [] = None"
| "read_fields (c # cs) =
    (if c = 0x3a \<and> cs \<noteq> [] \<and> last cs = 0x0a then unhex (butlast cs) else None)"

type_synonym hexrec = "BYTE \<times> WORD \<times> BYTE list"

fun fields_record :: "BYTE list \<Rightarrow> hexrec option" where
  "fields_record (cc # hi # lo # tt # rest) =
    (if length rest = Suc (unat cc) \<and> cc + hi + lo + tt + sum_list rest = 0
     then Some (tt, push_bit 8 (ucast hi) OR ucast lo, butlast rest)
     else None)"
| "fields_record _ = None"

definition read_record :: "BYTE list \<Rightarrow> hexrec option" where
  "read_record l = (case read_fields l of None \<Rightarrow> None | Some fs \<Rightarrow> fields_record fs)"

text \<open>The lines of a file, each with its newline; a last line without one is an error.\<close>

fun split_lines :: "BYTE list \<Rightarrow> BYTE list \<Rightarrow> BYTE list list option" where
  "split_lines acc [] = (if acc = [] then Some [] else None)"
| "split_lines acc (c # cs) =
    (if c = 0x0a then map_option ((#) (acc @ [c])) (split_lines [] cs)
     else split_lines (acc @ [c]) cs)"

fun read_all :: "BYTE list list \<Rightarrow> hexrec list option" where
  "read_all [] = Some []"
| "read_all (l # ls) =
    (case read_record l of
       None \<Rightarrow> None
     | Some r \<Rightarrow> map_option ((#) r) (read_all ls))"

definition read_hex :: "BYTE list \<Rightarrow> hexrec list option" where
  "read_hex out = (case split_lines [] out of None \<Rightarrow> None | Some ls \<Rightarrow> read_all ls)"

text \<open>
  The bytes a data record loads, each with its address; the address of a record
  counts modulo 65536. An end-of-file record loads nothing.
\<close>

fun record_bytes :: "hexrec \<Rightarrow> (nat \<times> BYTE) list" where
  "record_bytes (tt, addr, bs) =
    (if tt = HEX_DATA
     then zip (map (\<lambda>i. (unat addr + i) mod 65536) [0..<length bs]) bs
     else [])"

definition data_bytes :: "hexrec list \<Rightarrow> (nat \<times> BYTE) list" where
  "data_bytes recs = concat (map record_bytes recs)"

text \<open>
  The bytes still in the record buffer with their addresses, and everything a hex
  run has taken so far: what the file loads when read back, then the buffer.
\<close>

definition pending :: "emit_state \<Rightarrow> (nat \<times> BYTE) list" where
  "pending s =
    zip (addrs (unat (hex_addr s)) (unat (hex_cnt s))) (take (unat (hex_cnt s)) (hex_buf s))"

definition hex_image :: "emit_state \<Rightarrow> (nat \<times> BYTE) list option" where
  "hex_image s = map_option (\<lambda>recs. data_bytes recs @ pending s) (read_hex (objfp s))"

subsection \<open>Example configurations\<close>

text \<open>
  A raw binary run with no load address, and a loader binary run with the load
  address 0x0100; both in pass 2, with records of at most 32 bytes.
\<close>

definition bin_init :: emit_state where
  "bin_init = init_state OBJ_BIN False 0 False 32 0 2 32"

definition mos_init :: emit_state where
  "mos_init = init_state OBJ_MOS True 0x100 False 32 0 2 32"

text \<open>Origin 10, one byte written, origin back to 5: the latch is set.\<close>

definition latched_state :: emit_state where
  "latched_state = obj_org 5 (obj_writeb [0] 1 (obj_org 10 bin_init))"

text \<open>Two bytes written at 0 and the origin moved to 5: a gap of three bytes is open.\<close>

definition gap_state :: emit_state where
  "gap_state = obj_org 5 (obj_writeb [0x01, 0x02] 2 bin_init)"

text \<open>Origin 0x50 and one byte written, both below the load address 0x0100.\<close>

definition gated_state :: emit_state where
  "gated_state = obj_writeb [0xaa] 1 (obj_org 0x50 mos_init)"

text \<open>Hex records of at most 4 bytes; two bytes are in the buffer.\<close>

definition hex_init :: emit_state where
  "hex_init = init_state OBJ_HEX False 0 False 4 0 2 32"

definition pending_state :: emit_state where
  "pending_state = obj_writeb [0x01, 0x02] 2 hex_init"

section \<open>Properties\<close>

subsection \<open>The loops in closed form\<close>

lemma fill_bin_eq:
  "fill_bin s =
    (if bin_addr s < curr_addr s
     then s\<lparr>objfp := objfp s @ replicate (unat (curr_addr s) - unat (bin_addr s)) 0xff,
            bin_addr := curr_addr s\<rparr>
     else s)"
proof (induction s rule: fill_bin.induct)
  case (1 s)
  show ?case
  proof (cases "bin_addr s < curr_addr s")
    case False
    then show ?thesis by (simp add: fill_bin.simps)
  next
    case True
    let ?s' = "(putc 0xff s)\<lparr>bin_addr := bin_addr s + 1\<rparr>"
    from True have u: "unat (bin_addr s + 1) = Suc (unat (bin_addr s))"
      by unat_arith
    from True have lt: "unat (bin_addr s) < unat (curr_addr s)"
      by (simp add: word_less_nat_alt)
    from u lt have k: "unat (curr_addr s) - unat (bin_addr s)
        = Suc (unat (curr_addr s) - unat (bin_addr s + 1))"
      by simp
    have step: "fill_bin s = fill_bin ?s'"
      using True by (subst fill_bin.simps) simp
    show ?thesis
    proof (cases "bin_addr s + 1 < curr_addr s")
      case more: True
      then show ?thesis
        using 1 [OF True] True k step by (simp add: putc_def)
    next
      case last: False
      with True have e: "bin_addr s + 1 = curr_addr s"
        by unat_arith
      then have "unat (curr_addr s) - unat (bin_addr s + 1) = 0"
        by simp
      then show ?thesis
        using 1 [OF True] True last k step e by (simp add: putc_def)
    qed
  qed
qed

lemma putc_loop_eq: "putc_loop n v s = s\<lparr>objfp := objfp s @ replicate n (ucast v)\<rparr>"
  by (induction n arbitrary: s) (simp_all add: putc_def replicate_append_same)

lemma asmerr_fields [simp]:
  "objfp (asmerr i s) = objfp s"
  "bin_addr (asmerr i s) = bin_addr s"
  "curr_addr (asmerr i s) = curr_addr s"
  "nseq_flag (asmerr i s) = nseq_flag s"
  "errors (asmerr i s) = errors s + 1"
  by (simp_all add: asmerr_def)

lemma latched_state_eq:
  "latched_state = bin_init\<lparr>nseq_flag := True, curr_addr := 5, bin_addr := 11,
     objfp := replicate 10 0xff @ [0]\<rparr>"
  by (simp add: latched_state_def bin_init_def init_state_def obj_org_def org_bin_def
      obj_writeb_def writeb_bin_def fill_bin_eq fwrite_def)

subsection \<open>Writes before the load address\<close>

text \<open>
  Claim C6. In the binary formats, with a load address configured, the latch clear
  and the physical cursor below the load address, a write of \<open>op_cnt \<noteq> 0\<close> bytes
  and a fill of \<open>count \<noteq> 0\<close> bytes do one call of \<^verbatim>\<open>asmerr(E_BFRORG)\<close> and add the
  byte count to the logical address (modulo 65536), and nothing else: the file
  and the physical cursor are as before, and the error counter is one higher.
\<close>

theorem write_before_origin:
  assumes "obj_fmt s = OBJ_BIN \<or> obj_fmt s = OBJ_MOS"
    and "load_flag s" and "\<not> nseq_flag s" and "bin_addr s < load_addr s"
  shows "(op_cnt \<noteq> 0 \<longrightarrow>
            obj_writeb ops op_cnt s
              = (asmerr E_BFRORG s)\<lparr>curr_addr := curr_addr s + of_nat op_cnt\<rparr>
          \<and> objfp (obj_writeb ops op_cnt s) = objfp s
          \<and> bin_addr (obj_writeb ops op_cnt s) = bin_addr s
          \<and> errors (obj_writeb ops op_cnt s) = errors s + 1
          \<and> curr_addr (obj_writeb ops op_cnt s) = curr_addr s + of_nat op_cnt)
       \<and> (count \<noteq> 0 \<longrightarrow>
            obj_fill_value count v s
              = (asmerr E_BFRORG s)\<lparr>curr_addr := curr_addr s + count\<rparr>
          \<and> objfp (obj_fill_value count v s) = objfp s
          \<and> bin_addr (obj_fill_value count v s) = bin_addr s
          \<and> errors (obj_fill_value count v s) = errors s + 1
          \<and> curr_addr (obj_fill_value count v s) = curr_addr s + count)"
proof -
  have w: "op_cnt \<noteq> 0 \<Longrightarrow> obj_writeb ops op_cnt s
      = (asmerr E_BFRORG s)\<lparr>curr_addr := curr_addr s + of_nat op_cnt\<rparr>"
    using assms by (auto simp: obj_writeb_def writeb_bin_def)
  have f: "count \<noteq> 0 \<Longrightarrow> obj_fill_value count v s
      = (asmerr E_BFRORG s)\<lparr>curr_addr := curr_addr s + count\<rparr>"
    using assms by (auto simp: obj_fill_value_def fill_value_bin_def)
  show ?thesis
    using w f by simp
qed

theorem write_before_origin_witness:
  "(obj_fmt mos_init = OBJ_BIN \<or> obj_fmt mos_init = OBJ_MOS) \<and> load_flag mos_init
   \<and> \<not> nseq_flag mos_init \<and> bin_addr mos_init < load_addr mos_init
   \<and> (1::nat) \<noteq> 0 \<and> (3::WORD) \<noteq> 0
   \<and> objfp (obj_writeb [0xaa] 1 mos_init) = []
   \<and> bin_addr (obj_writeb [0xaa] 1 mos_init) = 0
   \<and> curr_addr (obj_writeb [0xaa] 1 mos_init) = 1
   \<and> errors (obj_writeb [0xaa] 1 mos_init) = 1
   \<and> errnum (obj_writeb [0xaa] 1 mos_init) = E_BFRORG
   \<and> objfp (obj_fill_value 3 0xe5 mos_init) = []
   \<and> bin_addr (obj_fill_value 3 0xe5 mos_init) = 0
   \<and> curr_addr (obj_fill_value 3 0xe5 mos_init) = 3
   \<and> errors (obj_fill_value 3 0xe5 mos_init) = 1"
  using write_before_origin [of mos_init 1 "[0xaa]" 3 "0xe5"]
  by (simp add: mos_init_def init_state_def asmerr_def)

subsection \<open>Writes while the latch is set\<close>

text \<open>
  Claim C5, as amended. In the binary formats, while \<^verbatim>\<open>nseq_flag\<close> is set, a write
  of \<open>op_cnt \<noteq> 0\<close> bytes and a fill of \<open>count \<noteq> 0\<close> bytes are exactly one call of
  \<^verbatim>\<open>asmerr(E_NSQWRT)\<close>: the error counter is one higher and the error is recorded
  (printed in pass 1, stored in \<^verbatim>\<open>errnum\<close> otherwise); the file, the logical
  address and the physical cursor are as before, and so is every other field.
  A call with a count of 0 returns at once and reports nothing, which is why the
  claim does not hold of every call.
\<close>

theorem nonsequential_write_discarded:
  assumes "obj_fmt s = OBJ_BIN \<or> obj_fmt s = OBJ_MOS" and "nseq_flag s"
  shows "(op_cnt \<noteq> 0 \<longrightarrow> obj_writeb ops op_cnt s = asmerr E_NSQWRT s)
       \<and> (count \<noteq> 0 \<longrightarrow> obj_fill_value count v s = asmerr E_NSQWRT s)
       \<and> objfp (asmerr E_NSQWRT s) = objfp s
       \<and> curr_addr (asmerr E_NSQWRT s) = curr_addr s
       \<and> bin_addr (asmerr E_NSQWRT s) = bin_addr s
       \<and> errors (asmerr E_NSQWRT s) = errors s + 1
       \<and> (if pass s = 1
           then errfp (asmerr E_NSQWRT s) = errfp s @ [''non-sequential object code'']
           else errnum (asmerr E_NSQWRT s) = E_NSQWRT)
       \<and> (asmerr E_NSQWRT s)\<lparr>errors := errors s, errnum := errnum s, errfp := errfp s\<rparr> = s"
proof -
  have w: "op_cnt \<noteq> 0 \<Longrightarrow> obj_writeb ops op_cnt s = asmerr E_NSQWRT s"
    using assms by (auto simp: obj_writeb_def writeb_bin_def)
  have f: "count \<noteq> 0 \<Longrightarrow> obj_fill_value count v s = asmerr E_NSQWRT s"
    using assms by (auto simp: obj_fill_value_def fill_value_bin_def)
  have m: "errmsg ! E_NSQWRT = ''non-sequential object code''"
    by (simp add: errmsg_def E_NSQWRT_def)
  show ?thesis
    using w f m by (simp add: asmerr_def)
qed

theorem nonsequential_write_discarded_witness:
  "(obj_fmt latched_state = OBJ_BIN \<or> obj_fmt latched_state = OBJ_MOS)
   \<and> nseq_flag latched_state \<and> (1::nat) \<noteq> 0 \<and> (3::WORD) \<noteq> 0
   \<and> obj_writeb [0x77] 1 latched_state = asmerr E_NSQWRT latched_state
   \<and> obj_fill_value 3 0xe5 latched_state = asmerr E_NSQWRT latched_state
   \<and> objfp (asmerr E_NSQWRT latched_state) = replicate 10 0xff @ [0]
   \<and> curr_addr (asmerr E_NSQWRT latched_state) = 5
   \<and> bin_addr (asmerr E_NSQWRT latched_state) = 11
   \<and> errors (asmerr E_NSQWRT latched_state) = 1
   \<and> errnum (asmerr E_NSQWRT latched_state) = 9"
  using nonsequential_write_discarded [of latched_state 1 "[0x77]" 3 "0xe5"]
  by (simp add: latched_state_eq bin_init_def init_state_def E_NSQWRT_def)

text \<open>
  The claim as stated fails for the empty call: in the latched state a write of no
  bytes and a fill of no bytes leave the state as it is, error counter included.
\<close>

theorem nonsequential_empty_call_counterexample:
  "nseq_flag latched_state
   \<and> obj_fmt latched_state = OBJ_BIN
   \<and> obj_writeb [] 0 latched_state = latched_state
   \<and> obj_fill_value 0 0xe5 latched_state = latched_state
   \<and> errors (obj_writeb [] 0 latched_state) \<noteq> errors latched_state + 1
   \<and> errnum (obj_writeb [] 0 latched_state) \<noteq> E_NSQWRT"
  by (simp add: latched_state_eq bin_init_def init_state_def obj_writeb_def
      obj_fill_value_def E_NSQWRT_def E_NOERR_def)

subsection \<open>The final fill\<close>

lemma gap_state_eq:
  "gap_state = bin_init\<lparr>curr_addr := 5, bin_addr := 2, objfp := [0x01, 0x02]\<rparr>"
  by (simp add: gap_state_def bin_init_def init_state_def obj_org_def org_bin_def
      obj_writeb_def writeb_bin_def fill_bin_eq fwrite_def upt_rec)

lemma gated_state_eq:
  "gated_state = mos_init\<lparr>curr_addr := 0x51, bin_addr := 0x50, errnum := E_BFRORG,
     errors := 1\<rparr>"
  by (simp add: gated_state_def mos_init_def init_state_def obj_org_def org_bin_def
      obj_writeb_def writeb_bin_def asmerr_def)

text \<open>
  Claim C7. In the binary formats \<^verbatim>\<open>obj_end\<close> is \<^verbatim>\<open>fill_bin\<close> when filling is
  enabled (\<^verbatim>\<open>nofill_flag\<close> clear) and the load-address gate is not closed (no load
  address, or the physical cursor not below it): it appends one 0xFF for each
  address from the physical cursor up to the logical address, none when the
  cursor has caught up, and leaves the cursor at the larger of the two. In every
  other case \<^verbatim>\<open>obj_end\<close> leaves the state, and so the file, as it is.
\<close>

theorem obj_end_fill:
  assumes "obj_fmt s = OBJ_BIN \<or> obj_fmt s = OBJ_MOS"
  shows "(\<not> nofill_flag s \<and> \<not> (load_flag s \<and> bin_addr s < load_addr s) \<longrightarrow>
            obj_end s = fill_bin s
          \<and> objfp (obj_end s)
              = objfp s @ replicate (unat (curr_addr s) - unat (bin_addr s)) 0xff
          \<and> bin_addr (obj_end s) = max (bin_addr s) (curr_addr s))
       \<and> (nofill_flag s \<or> (load_flag s \<and> bin_addr s < load_addr s) \<longrightarrow> obj_end s = s)"
proof -
  have e: "obj_end s = (if \<not> nofill_flag s \<and> \<not> (load_flag s \<and> bin_addr s < load_addr s)
      then fill_bin s else s)"
    using assms by (auto simp: obj_end_def)
  have "unat (curr_addr s) - unat (bin_addr s) = 0" if "\<not> bin_addr s < curr_addr s"
    using that by (simp add: word_less_nat_alt)
  then have f: "objfp (fill_bin s)
      = objfp s @ replicate (unat (curr_addr s) - unat (bin_addr s)) 0xff"
    by (simp add: fill_bin_eq)
  have b: "bin_addr (fill_bin s) = max (bin_addr s) (curr_addr s)"
    by (auto simp: fill_bin_eq max_def)
  show ?thesis
    using e f b by auto
qed

theorem obj_end_fill_witness:
  "(obj_fmt gap_state = OBJ_BIN \<or> obj_fmt gap_state = OBJ_MOS)
   \<and> \<not> nofill_flag gap_state
   \<and> \<not> (load_flag gap_state \<and> bin_addr gap_state < load_addr gap_state)
   \<and> objfp (obj_end gap_state) = [0x01, 0x02, 0xff, 0xff, 0xff]
   \<and> bin_addr (obj_end gap_state) = 5
   \<and> (obj_fmt gated_state = OBJ_BIN \<or> obj_fmt gated_state = OBJ_MOS)
   \<and> load_flag gated_state \<and> bin_addr gated_state < load_addr gated_state
   \<and> bin_addr gated_state < curr_addr gated_state
   \<and> obj_end gated_state = gated_state"
  using obj_end_fill [of gap_state] obj_end_fill [of gated_state]
  by (simp add: gap_state_eq gated_state_eq bin_init_def mos_init_def init_state_def
      fill_bin_eq numeral_3_eq_3)

subsection \<open>The raw binary example\<close>

text \<open>
  Claim C8. Raw binary with no load address, from the initial state: the header,
  the bytes 01 02 written at address 0, the origin set to 5, the byte 03 written,
  the end: the file is the six bytes 01 02 FF FF FF 03. The other settings
  (load address value, fill switch, record length, start address, pass, buffer
  size) are arbitrary.
\<close>

theorem raw_binary_example:
  "objfp (obj_end (obj_writeb [0x03] 1 (obj_org 5 (obj_writeb [0x01, 0x02] 2
      (obj_header (init_state OBJ_BIN False la nf hl sa ps mh))))))
    = [0x01, 0x02, 0xff, 0xff, 0xff, 0x03]"
  by (simp add: init_state_def obj_header_def obj_writeb_def writeb_bin_def obj_org_def
      org_bin_def obj_end_def fill_bin_eq fwrite_def upt_rec numeral_3_eq_3)

subsection \<open>Flushing the record buffer\<close>

lemma pending_state_eq:
  "pending_state = hex_init\<lparr>curr_addr := 2, hex_cnt := 2,
     hex_buf := [0x01, 0x02] @ replicate 30 0\<rparr>"
  by (simp add: pending_state_def hex_init_def init_state_def obj_writeb_def hex_put_def
      numeral_2_eq_2 eval_nat_numeral)

text \<open>
  Claim C9. A second \<^verbatim>\<open>flush_hex\<close> changes nothing: the state after two calls is
  the state after one, and so is the file. With an empty buffer the call only
  sets \<^verbatim>\<open>hex_addr\<close> to the logical address and writes nothing; with a non-empty
  buffer it writes the text of exactly one data record and empties the buffer.
\<close>

theorem flush_hex_idempotent:
  "flush_hex (flush_hex s) = flush_hex s
   \<and> objfp (flush_hex (flush_hex s)) = objfp (flush_hex s)
   \<and> hex_addr (flush_hex s) = curr_addr s
   \<and> hex_cnt (flush_hex s) = 0
   \<and> (hex_cnt s = 0 \<longrightarrow>
        flush_hex s = s\<lparr>hex_addr := curr_addr s\<rparr> \<and> objfp (flush_hex s) = objfp s)
   \<and> (hex_cnt s \<noteq> 0 \<longrightarrow> objfp (flush_hex s) = objfp s @ hex_out HEX_DATA s)"
  by (simp add: flush_hex_def hex_record_def)

theorem flush_hex_idempotent_witness:
  "hex_cnt hex_init = 0
   \<and> flush_hex hex_init = hex_init
   \<and> hex_cnt pending_state \<noteq> 0
   \<and> objfp (flush_hex pending_state)
       = [0x3a, 0x30, 0x32, 0x30, 0x30, 0x30, 0x30, 0x30, 0x30, 0x30, 0x31, 0x30, 0x32,
          0x46, 0x42, 0x0a]
   \<and> objfp (flush_hex (flush_hex pending_state)) = objfp (flush_hex pending_state)"
  using flush_hex_idempotent [of hex_init] flush_hex_idempotent [of pending_state]
  by (simp add: pending_state_eq hex_init_def init_state_def hex_out_def record_fields_def
      chksum_def btoh_def HEX_DATA_def upt_rec)

subsection \<open>Hex digits and the checksum\<close>

lemma nib: "(c::BYTE) < 16 \<Longrightarrow> hexval (c + (if c < 10 then 0x30 else 0x37)) = Some c"
proof -
  assume "c < 16"
  then have c: "unat c < 16"
    by (simp add: word_less_nat_alt)
  show ?thesis
  proof (cases "c < 10")
    case True
    then have d: "unat c < 10"
      by (simp add: word_less_nat_alt)
    then have "unat (c + 0x30) = unat c + 48"
      by (simp add: unat_word_ariths)
    with d have "0x30 \<le> c + 0x30 \<and> c + 0x30 \<le> 0x39"
      by (simp add: word_le_nat_alt)
    with True show ?thesis
      by (simp add: hexval_def)
  next
    case False
    then have d: "10 \<le> unat c"
      by (simp add: word_less_nat_alt)
    from c have "unat (c + 0x37) = unat c + 55"
      by (simp add: unat_word_ariths)
    with c d have "\<not> (c + 0x37 \<le> 0x39) \<and> 0x41 \<le> c + 0x37 \<and> c + 0x37 \<le> 0x46"
      by (simp add: word_le_nat_alt)
    with False show ?thesis
      by (simp add: hexval_def)
  qed
qed

lemma low_nib: "(b::BYTE) AND 0xf = take_bit 4 b"
proof -
  have "(0xf::BYTE) = mask 4" by (simp add: mask_eq_exp_minus_1)
  then show ?thesis by (simp add: take_bit_eq_mask)
qed

lemma nib_join: "push_bit 4 (drop_bit 4 b) OR (b AND 0xf) = (b::BYTE)"
  unfolding low_nib
  by (rule bit_word_eqI) (auto simp: bit_simps)

lemma hi_lt: "drop_bit 4 (b::BYTE) < 16"
proof -
  have "unat b < 256" using unsigned_less [of b] by simp
  then have "unat b div 16 < 16" by simp
  then show ?thesis by (simp add: word_less_nat_alt drop_bit_eq_div unat_div)
qed

lemma lo_lt: "(b::BYTE) AND 0xf < 16"
  using and_mask_less_size [of 4 b] by (simp add: word_size mask_eq_exp_minus_1)

lemma addr_join: "push_bit 8 (ucast (ucast (drop_bit 8 a) :: BYTE)) OR ucast (ucast (a AND 0xff) :: BYTE) = (a::WORD)"
proof -
  have m: "(0xff::WORD) = mask 8" by (simp add: mask_eq_exp_minus_1)
  show ?thesis unfolding m
  by (rule bit_word_eqI) (auto simp: bit_simps)
qed

lemma sum_fold: "fold (\<lambda>n sum. sum + f n) xs (a::BYTE) = a + sum_list (map f xs)"
  by (induction xs arbitrary: a) (simp_all add: add.assoc)

lemma unat_sum_list: "unat (sum_list (ws::BYTE list)) = sum_list (map unat ws) mod 256"
proof (induction ws)
  case Nil show ?case by simp
next
  case (Cons w ws)
  have "unat (w + sum_list ws) = (unat w + unat (sum_list ws)) mod 256"
    by (simp add: unat_word_ariths)
  also have "\<dots> = (unat w + sum_list (map unat ws) mod 256) mod 256" by (simp only: Cons.IH)
  also have "\<dots> = (unat w + sum_list (map unat ws)) mod 256" by (rule mod_add_right_eq)
  finally show ?case by simp
qed

lemma unhex_btoh: "unhex (btoh b @ cs) = map_option ((#) b) (unhex cs)"
  using nib [OF hi_lt [of b]] nib [OF lo_lt [of b]] nib_join [of b]
  by (simp add: btoh_def Let_def)

lemma unhex_concat: "unhex (concat (map btoh fs)) = Some fs"
  by (induction fs) (simp_all add: unhex_btoh)

lemma hexval_newline: "hexval 0x0a = None"
  by (simp add: hexval_def)

lemma btoh_digits:
  "\<exists>h l. btoh b = [h, l] \<and> hexval h = Some (drop_bit 4 b) \<and> hexval l = Some (b AND 0xf)"
  using nib [OF hi_lt [of b]] nib [OF lo_lt [of b]]
  by (simp add: btoh_def Let_def)

lemma btoh_no_newline: "0x0a \<notin> set (btoh b)"
proof
  assume a: "0x0a \<in> set (btoh b)"
  obtain h l where "btoh b = [h, l]" "hexval h = Some (drop_bit 4 b)" "hexval l = Some (b AND 0xf)"
    using btoh_digits by blast
  with a have "hexval 0x0a \<noteq> None" by auto
  then show False by (simp add: hexval_newline)
qed

lemma unat_neg: "unat (- (x::BYTE)) = (256 - unat x) mod 256"
proof (cases "x = 0")
  case True
  then show ?thesis by simp
next
  case False
  then have p: "0 < unat x"
    by (simp add: unat_gt_0)
  have "unat (x + (- x)) = (unat x + unat (- x)) mod 256"
    by (simp only: unat_word_ariths) simp
  then have "(unat x + unat (- x)) mod 256 = 0"
    by simp
  then obtain q where q: "unat x + unat (- x) = 256 * q"
    by (auto simp: mod_eq_0_iff_dvd elim: dvdE)
  have a: "unat x < 256"
    using unsigned_less [of x] by simp
  have b: "unat (- x) < 256"
    using unsigned_less [of "- x"] by simp
  from q p a b have "q = 1"
    by arith
  with q have "unat (- x) = 256 - unat x"
    by simp
  with p show ?thesis
    by simp
qed


lemma fields_butlast: "butlast (record_fields t s) = [ucast (hex_cnt s), ucast (drop_bit 8 (hex_addr s)), ucast (hex_addr s AND 0xff), t]
    @ map (\<lambda>n. hex_buf s ! n) [0..<unat (hex_cnt s)]"
  by (simp add: record_fields_def butlast_append)

lemma chksum_neg: "chksum t s = - sum_list (butlast (record_fields t s))"
  by (simp add: fields_butlast chksum_def sum_fold add.assoc)

lemma fields_sum: "sum_list (record_fields t s) = 0"
proof -
  have "record_fields t s = butlast (record_fields t s) @ [chksum t s]"
    by (simp add: fields_butlast) (simp add: record_fields_def)
  then have "sum_list (record_fields t s) = sum_list (butlast (record_fields t s)) + chksum t s"
    by (metis sum_list.append sum_list.Cons sum_list.Nil add.right_neutral)
  then show ?thesis by (simp add: chksum_neg)
qed

lemma hex_out_no_newline: "0x0a \<notin> set (butlast (hex_out t s))"
  by (simp add: hex_out_def butlast_append btoh_no_newline)

lemma read_fields_hex_out: "read_fields (hex_out t s) = Some (record_fields t s)"
  by (simp add: hex_out_def butlast_append unhex_concat)

text \<open>
  Claim C2. For every state and record type, so for the data records of
  \<^verbatim>\<open>flush_hex\<close> and the end-of-file record of \<^verbatim>\<open>eof_hex\<close>: the last byte
  \<^verbatim>\<open>hex_record\<close> writes is the checksum; the checksum is the two's complement of
  the sum of the bytes before it (count, address high, address low, type,
  payload), which as a number is 256 minus that sum modulo 256, reduced modulo
  256; and the unsigned sum of all the bytes of the record, checksum included, is
  0 modulo 256. The bytes meant are those a reader gets back from the text of the
  record.
\<close>

theorem record_checksum:
  "last (record_fields rec_type s) = chksum rec_type s
   \<and> chksum rec_type s = - sum_list (butlast (record_fields rec_type s))
   \<and> unat (chksum rec_type s)
       = (256 - sum_list (map unat (butlast (record_fields rec_type s))) mod 256) mod 256
   \<and> sum_list (map unat (record_fields rec_type s)) mod 256 = 0
   \<and> read_fields (hex_out rec_type s) = Some (record_fields rec_type s)
   \<and> objfp (hex_record rec_type s) = objfp s @ hex_out rec_type s
   \<and> objfp (flush_hex s) = objfp s @ (if hex_cnt s \<noteq> 0 then hex_out HEX_DATA s else [])
   \<and> objfp (eof_hex addr s) = objfp s @ hex_out HEX_EOF (s\<lparr>hex_cnt := 0, hex_addr := addr\<rparr>)"
proof -
  have l: "last (record_fields rec_type s) = chksum rec_type s"
    by (simp add: record_fields_def)
  have u: "unat (chksum rec_type s)
       = (256 - sum_list (map unat (butlast (record_fields rec_type s))) mod 256) mod 256"
    by (simp only: chksum_neg unat_neg unat_sum_list)
  have z: "sum_list (map unat (record_fields rec_type s)) mod 256 = 0"
    using unat_sum_list [of "record_fields rec_type s"] by (simp add: fields_sum)
  have r: "objfp (hex_record rec_type s) = objfp s @ hex_out rec_type s"
    by (simp add: hex_record_def)
  have f: "objfp (flush_hex s)
      = objfp s @ (if hex_cnt s \<noteq> 0 then hex_out HEX_DATA s else [])"
    by (simp add: flush_hex_def hex_record_def)
  have e: "objfp (eof_hex addr s)
      = objfp s @ hex_out HEX_EOF (s\<lparr>hex_cnt := 0, hex_addr := addr\<rparr>)"
    by (simp add: eof_hex_def hex_record_def)
  show ?thesis
    by (intro conjI l chksum_neg u z read_fields_hex_out r f e)
qed

end
